theory Spec2Isabelle
  imports Main "HOL-Library.Sublist"
begin

section \<open>Edith, the AI coding mentor: prompt assembly and dispatch (main.py)\<close>

text \<open>
  The service has four handlers. Each one fixes an instruction text, hands it with optional
  context strings to \<open>get_gemini_response\<close>, which builds the list \<open>input_data\<close> of text
  segments, calls the external model once and returns the text of its response.

  Python strings are modelled as \<^typ>\<open>string\<close>, the UTF-8 bytes of the text. The only
  string operations of the source are concatenation and the truth test (a string is false
  exactly when it is empty); both commute with the encoding.
\<close>

subsection \<open>Request models\<close>

record ApproachRequest =
  problem_statement :: string
  code_input :: string

record DoubtRequest =
  doubt_question :: string
  problem_context :: string

record GeneralCodingQuestion =
  question :: string

record ScoreRequest =
  question :: string
  answer :: string

subsection \<open>The external provider\<close>

text \<open>
  The generative model is not part of the repository. A call either raises or returns a
  response object; reading the attribute \<open>text\<close> of a response either raises (the library
  does so for a response without usable content) or gives the generated text.
\<close>

datatype error = Exception string

datatype response = Response (response_text: "error + string")

text \<open>
  The provider is a parameter: from its own hidden state and the segments it is given, it
  produces an outcome and its next state. The hidden state makes it free to answer the same
  segments differently each time.
\<close>

type_synonym 'w provider = "'w \<Rightarrow> string list \<Rightarrow> (error + response) \<times> 'w"

text \<open>
  The world a handler runs in: the log of the segment lists sent to the provider so far, in
  order, and the provider's hidden state.
\<close>

record 'w world =
  calls :: "string list list"
  provider_state :: 'w

text \<open>\<open>model.generate_content(input_data)\<close>: one outbound call, logged.\<close>

definition generate_content ::
  "'w provider \<Rightarrow> string list \<Rightarrow> 'w world \<Rightarrow> (error + response) \<times> 'w world" where
  "generate_content gen input_data s =
     (case gen (provider_state s) input_data of
        (r, w') \<Rightarrow> (r, s\<lparr>calls := calls s @ [input_data], provider_state := w'\<rparr>))"

subsection \<open>get_gemini_response\<close>

text \<open>
  Python's truth test on an optional string argument: \<open>None\<close> and the empty string are
  false, every other string is true.
\<close>

definition truthy :: "string option \<Rightarrow> bool" where
  "truthy v = (case v of None \<Rightarrow> False | Some x \<Rightarrow> x \<noteq> [])"

text \<open>Lines 47 to 52: the value of \<open>input_data\<close> when the provider is called.\<close>

definition input_data ::
  "string \<Rightarrow> string option \<Rightarrow> string option \<Rightarrow> string list" where
  "input_data prompt code_snippet user_question =
     (let d0 = [];
          d1 = (if truthy user_question
                then d0 @ [''Problem/Question: '' @ the user_question] else d0);
          d2 = (if truthy code_snippet
                then d1 @ [''User Code: '' @ the code_snippet] else d1)
      in d2 @ [''Prompt: '' @ prompt])"

definition get_gemini_response ::
  "'w provider \<Rightarrow> string \<Rightarrow> string option \<Rightarrow> string option \<Rightarrow> 'w world
     \<Rightarrow> (error + string) \<times> 'w world" where
  "get_gemini_response gen prompt code_snippet user_question s =
     (case generate_content gen (input_data prompt code_snippet user_question) s of
        (Inl e, s') \<Rightarrow> (Inl e, s')
      | (Inr response, s') \<Rightarrow> (response_text response, s'))"

subsection \<open>The fixed instruction texts\<close>

text \<open>
  The numbered items of two of the texts are keycap emoji: a digit followed by U+FE0F and
  U+20E3, here in UTF-8.
\<close>

definition keycap :: string where
  "keycap = [CHR 0xEF, CHR 0xB8, CHR 0x8F, CHR 0xE2, CHR 0x83, CHR 0xA3]"

definition prompt_approach :: string where
  "prompt_approach =
     ''You are an expert coding mentor named Edith. The user has provided a coding problem and a code snippet. ''
   @ ''Analyze the code and provide a **concise and professional** response covering three key areas:\<newline>\<newline>''
   @ ''1'' @ keycap @ '' **How the user can proceed next** based on the current implementation.\<newline>''
   @ ''2'' @ keycap @ '' **Identify errors (if any)**, mentioning **specific line numbers** and explaining incorrect logic.\<newline>''
   @ ''3'' @ keycap @ '' **Give the correct approach** (without providing direct code), focusing on best practices and improvements.''"

definition prompt_doubt :: string where
  "prompt_doubt =
     ''You are a knowledgeable technical mentor named Edith. ''
   @ ''Answer the user'' @ [CHR 0x27] @ ''s question and clarify any doubts regarding the problem statement. ''
   @ ''Provide a **precise yet detailed explanation**, ensuring conceptual clarity.''"

definition prompt_edit :: string where
  "prompt_edit =
     ''You are Edith, an AI coding mentor who helps users **think** about problems instead of just providing answers. \<newline>''
   @ ''        For the given coding question, explain **how the user should approach it**, including:\<newline>''
   @ ''        1'' @ keycap @ '' **Breaking down the problem logically**  \<newline>''
   @ ''        2'' @ keycap @ '' **Identifying key concepts involved**  \<newline>''
   @ ''        3'' @ keycap @ '' **Steps to derive a solution independently**  \<newline>''
   @ ''        Encourage problem-solving without giving direct solutions.''"

text \<open>The f-string of \<open>give_score\<close>, with the two request fields interpolated.\<close>

definition prompt_score :: "ScoreRequest \<Rightarrow> string" where
  "prompt_score request =
     ''You are an expert evaluator. Evaluate the following answer to the given question on a scale of 0 to 10, ''
   @ ''where 0 means completely incorrect and 10 means completely correct.\<newline>\<newline>''
   @ ''Question: '' @ ScoreRequest.question request @ ''\<newline>''
   @ ''Answer: '' @ answer request @ ''\<newline>\<newline>''
   @ ''Please respond only with the numeric score.''"

subsection \<open>The four handlers\<close>

text \<open>
  A handler returns the JSON object of its reply, a dictionary with one key, or the
  exception that escaped it.
\<close>

definition analyze_code ::
  "'w provider \<Rightarrow> ApproachRequest \<Rightarrow> 'w world \<Rightarrow> (error + (string \<rightharpoonup> string)) \<times> 'w world" where
  "analyze_code gen request s =
     (case get_gemini_response gen prompt_approach
             (Some (code_input request)) (Some (problem_statement request)) s of
        (Inl e, s') \<Rightarrow> (Inl e, s')
      | (Inr response, s') \<Rightarrow> (Inr [''response'' \<mapsto> response], s'))"

definition solve_doubt ::
  "'w provider \<Rightarrow> DoubtRequest \<Rightarrow> 'w world \<Rightarrow> (error + (string \<rightharpoonup> string)) \<times> 'w world" where
  "solve_doubt gen request s =
     (let combined_question =
            doubt_question request @ ''\<newline>Context: '' @ problem_context request
      in case get_gemini_response gen prompt_doubt None (Some combined_question) s of
           (Inl e, s') \<Rightarrow> (Inl e, s')
         | (Inr response, s') \<Rightarrow> (Inr [''response'' \<mapsto> response], s'))"

definition edit_code_thinking ::
  "'w provider \<Rightarrow> GeneralCodingQuestion \<Rightarrow> 'w world
     \<Rightarrow> (error + (string \<rightharpoonup> string)) \<times> 'w world" where
  "edit_code_thinking gen request s =
     (case get_gemini_response gen prompt_edit
             None (Some (GeneralCodingQuestion.question request)) s of
        (Inl e, s') \<Rightarrow> (Inl e, s')
      | (Inr response, s') \<Rightarrow> (Inr [''response'' \<mapsto> response], s'))"

definition give_score ::
  "'w provider \<Rightarrow> ScoreRequest \<Rightarrow> 'w world \<Rightarrow> (error + (string \<rightharpoonup> string)) \<times> 'w world" where
  "give_score gen request s =
     (case get_gemini_response gen (prompt_score request) None None s of
        (Inl e, s') \<Rightarrow> (Inl e, s')
      | (Inr score_response, s') \<Rightarrow> (Inr [''score'' \<mapsto> score_response], s'))"

subsection \<open>Routing\<close>

text \<open>
  The four \<open>@app.post\<close> routes. A request that reaches a handler has passed the schema
  check of the framework, so it carries a value of the handler's request model.
\<close>

datatype request =
    POST_analyze ApproachRequest
  | POST_solve_doubt DoubtRequest
  | POST_edit GeneralCodingQuestion
  | POST_givescore ScoreRequest

definition app ::
  "'w provider \<Rightarrow> request \<Rightarrow> 'w world \<Rightarrow> (error + (string \<rightharpoonup> string)) \<times> 'w world" where
  "app gen req s =
     (case req of
        POST_analyze r \<Rightarrow> analyze_code gen r s
      | POST_solve_doubt r \<Rightarrow> solve_doubt gen r s
      | POST_edit r \<Rightarrow> edit_code_thinking gen r s
      | POST_givescore r \<Rightarrow> give_score gen r s)"

subsection \<open>Substitute providers for concrete runs\<close>

text \<open>
  Three deterministic providers that count their calls: one always answers with a given
  text, one always raises, one returns a response whose text cannot be read.
\<close>

definition answering_provider :: "string \<Rightarrow> nat provider" where
  "answering_provider t n segs = (Inr (Response (Inr t)), Suc n)"

definition raising_provider :: "error \<Rightarrow> nat provider" where
  "raising_provider e n segs = (Inl e, Suc n)"

definition unreadable_provider :: "error \<Rightarrow> nat provider" where
  "unreadable_provider e n segs = (Inr (Response (Inl e)), Suc n)"

definition fresh :: "nat world" where
  "fresh = \<lparr>calls = [], provider_state = 0\<rparr>"

section \<open>Properties\<close>

subsection \<open>What a run of each function amounts to\<close>

lemma input_data_cases:
  "input_data prompt code_snippet user_question =
     (case user_question of None \<Rightarrow> [] | Some q \<Rightarrow> if q = [] then [] else [''Problem/Question: '' @ q])
   @ (case code_snippet of None \<Rightarrow> [] | Some c \<Rightarrow> if c = [] then [] else [''User Code: '' @ c])
   @ [''Prompt: '' @ prompt]"
  by (simp add: input_data_def truthy_def split: option.splits)

lemma get_gemini_response_fst:
  "fst (get_gemini_response gen prompt code_snippet user_question s) =
     (case fst (gen (provider_state s) (input_data prompt code_snippet user_question)) of
        Inl e \<Rightarrow> Inl e | Inr r \<Rightarrow> response_text r)"
  by (simp add: get_gemini_response_def generate_content_def split: prod.splits sum.splits)

lemma get_gemini_response_snd:
  "snd (get_gemini_response gen prompt code_snippet user_question s) =
     s\<lparr>calls := calls s @ [input_data prompt code_snippet user_question],
       provider_state := snd (gen (provider_state s) (input_data prompt code_snippet user_question))\<rparr>"
  by (simp add: get_gemini_response_def generate_content_def split: prod.splits sum.splits)

lemma analyze_code_fst:
  "fst (analyze_code gen r s) =
     (case fst (get_gemini_response gen prompt_approach
                  (Some (code_input r)) (Some (problem_statement r)) s) of
        Inl e \<Rightarrow> Inl e | Inr t \<Rightarrow> Inr [''response'' \<mapsto> t])"
  by (simp add: analyze_code_def split: prod.splits sum.splits)

lemma analyze_code_snd:
  "snd (analyze_code gen r s) =
     snd (get_gemini_response gen prompt_approach
            (Some (code_input r)) (Some (problem_statement r)) s)"
  by (simp add: analyze_code_def split: prod.splits sum.splits)

lemma solve_doubt_fst:
  "fst (solve_doubt gen r s) =
     (case fst (get_gemini_response gen prompt_doubt None
                  (Some (doubt_question r @ ''\<newline>Context: '' @ problem_context r)) s) of
        Inl e \<Rightarrow> Inl e | Inr t \<Rightarrow> Inr [''response'' \<mapsto> t])"
  by (simp add: solve_doubt_def split: prod.splits sum.splits)

lemma solve_doubt_snd:
  "snd (solve_doubt gen r s) =
     snd (get_gemini_response gen prompt_doubt None
            (Some (doubt_question r @ ''\<newline>Context: '' @ problem_context r)) s)"
  by (simp add: solve_doubt_def split: prod.splits sum.splits)

lemma edit_code_thinking_fst:
  "fst (edit_code_thinking gen r s) =
     (case fst (get_gemini_response gen prompt_edit None
                  (Some (GeneralCodingQuestion.question r)) s) of
        Inl e \<Rightarrow> Inl e | Inr t \<Rightarrow> Inr [''response'' \<mapsto> t])"
  by (simp add: edit_code_thinking_def split: prod.splits sum.splits)

lemma edit_code_thinking_snd:
  "snd (edit_code_thinking gen r s) =
     snd (get_gemini_response gen prompt_edit None (Some (GeneralCodingQuestion.question r)) s)"
  by (simp add: edit_code_thinking_def split: prod.splits sum.splits)

lemma give_score_fst:
  "fst (give_score gen r s) =
     (case fst (get_gemini_response gen (prompt_score r) None None s) of
        Inl e \<Rightarrow> Inl e | Inr t \<Rightarrow> Inr [''score'' \<mapsto> t])"
  by (simp add: give_score_def split: prod.splits sum.splits)

lemma give_score_snd:
  "snd (give_score gen r s) = snd (get_gemini_response gen (prompt_score r) None None s)"
  by (simp add: give_score_def split: prod.splits sum.splits)

lemma analyze_code_calls:
  "calls (snd (analyze_code gen r s)) =
     calls s @ [input_data prompt_approach (Some (code_input r)) (Some (problem_statement r))]"
  by (simp add: analyze_code_snd get_gemini_response_snd)

lemma solve_doubt_calls:
  "calls (snd (solve_doubt gen r s)) =
     calls s @ [input_data prompt_doubt None
                  (Some (doubt_question r @ ''\<newline>Context: '' @ problem_context r))]"
  by (simp add: solve_doubt_snd get_gemini_response_snd)

lemma edit_code_thinking_calls:
  "calls (snd (edit_code_thinking gen r s)) =
     calls s @ [input_data prompt_edit None (Some (GeneralCodingQuestion.question r))]"
  by (simp add: edit_code_thinking_snd get_gemini_response_snd)

lemma give_score_calls:
  "calls (snd (give_score gen r s)) = calls s @ [input_data (prompt_score r) None None]"
  by (simp add: give_score_snd get_gemini_response_snd)

lemma no_code_snippet_no_label:
  "x \<in> set (input_data prompt None user_question) \<Longrightarrow> \<not> prefix ''User Code:'' x"
  by (auto simp: input_data_cases split: option.splits if_splits)

text \<open>
  Every route: one segment list is sent, the provider moves on by one step, and the reply is
  read off the outcome of that call.
\<close>

lemma app_sent:
  "\<exists>segs. snd (app gen req s) =
      s\<lparr>calls := calls s @ [segs], provider_state := snd (gen (provider_state s) segs)\<rparr>
    \<and> fst (app gen req s) =
      (case fst (gen (provider_state s) segs) of
         Inl e \<Rightarrow> Inl e
       | Inr resp \<Rightarrow>
           (case response_text resp of
              Inl e \<Rightarrow> Inl e
            | Inr t \<Rightarrow> Inr [(case req of POST_givescore _ \<Rightarrow> ''score'' | _ \<Rightarrow> ''response'') \<mapsto> t]))"
proof (cases req)
  case (POST_analyze r)
  show ?thesis
    unfolding POST_analyze app_def
    by (rule exI [of _ "input_data prompt_approach (Some (code_input r)) (Some (problem_statement r))"])
       (simp add: analyze_code_fst analyze_code_snd get_gemini_response_fst get_gemini_response_snd
          split: sum.splits)
next
  case (POST_solve_doubt r)
  show ?thesis
    unfolding POST_solve_doubt app_def
    by (rule exI [of _ "input_data prompt_doubt None
          (Some (doubt_question r @ ''\<newline>Context: '' @ problem_context r))"])
       (simp add: solve_doubt_fst solve_doubt_snd get_gemini_response_fst get_gemini_response_snd
          split: sum.splits)
next
  case (POST_edit r)
  show ?thesis
    unfolding POST_edit app_def
    by (rule exI [of _ "input_data prompt_edit None (Some (GeneralCodingQuestion.question r))"])
       (simp add: edit_code_thinking_fst edit_code_thinking_snd get_gemini_response_fst
          get_gemini_response_snd split: sum.splits)
next
  case (POST_givescore r)
  show ?thesis
    unfolding POST_givescore app_def
    by (rule exI [of _ "input_data (prompt_score r) None None"])
       (simp add: give_score_fst give_score_snd get_gemini_response_fst get_gemini_response_snd
          split: sum.splits)
qed

lemma sublist_between: "ys = ps @ xs @ ss \<Longrightarrow> sublist xs ys"
  by simp

subsection \<open>Segments of an analyze request\<close>

text \<open>
  C1, as amended. For every \<open>/analyze\<close> request whose \<open>problem_statement\<close> and
  \<open>code_input\<close> are both non-empty, the segment list sent to the provider is exactly the
  question segment, then the code segment, then the instruction segment, which is last.
\<close>

theorem analyze_segments_in_order:
  "problem_statement r \<noteq> [] \<Longrightarrow> code_input r \<noteq> [] \<Longrightarrow>
   calls (snd (analyze_code gen r s)) =
     calls s @ [[''Problem/Question: '' @ problem_statement r,
                 ''User Code: '' @ code_input r,
                 ''Prompt: '' @ prompt_approach]]"
  by (simp add: analyze_code_calls input_data_cases)

theorem analyze_segments_in_order_witness:
  "problem_statement \<lparr>problem_statement = ''Reverse a linked list'', code_input = ''def rev(h): pass''\<rparr> \<noteq> []
   \<and> code_input \<lparr>problem_statement = ''Reverse a linked list'', code_input = ''def rev(h): pass''\<rparr> \<noteq> []
   \<and> calls (snd (analyze_code (answering_provider ''ok'')
         \<lparr>problem_statement = ''Reverse a linked list'', code_input = ''def rev(h): pass''\<rparr> fresh)) =
       [[''Problem/Question: Reverse a linked list'',
         ''User Code: def rev(h): pass'',
         ''Prompt: '' @ prompt_approach]]"
  using analyze_segments_in_order [of "\<lparr>problem_statement = ''Reverse a linked list'', code_input = ''def rev(h): pass''\<rparr>"
     "answering_provider ''ok''" fresh]
  by (simp add: fresh_def)

text \<open>
  C1 as stated covers every request that supplies both fields. With the empty string as
  \<open>code_input\<close> the list that is sent has two segments and no code segment.
\<close>

theorem analyze_empty_code_counterexample:
  "calls (snd (analyze_code (answering_provider ''ok'')
         \<lparr>problem_statement = ''Reverse a linked list'', code_input = []\<rparr> fresh)) =
       [[''Problem/Question: Reverse a linked list'', ''Prompt: '' @ prompt_approach]]"
  by (simp add: analyze_code_calls input_data_cases fresh_def)

subsection \<open>Handlers without a code field\<close>

text \<open>
  C2. The handlers \<open>solve_doubt\<close>, \<open>edit_code_thinking\<close> and \<open>give_score\<close> send one
  segment list each, and no segment of it starts with the label \<open>User Code:\<close>, whatever the
  strings of the request are.
\<close>

theorem no_user_code_segment:
  "(\<exists>segs. calls (snd (solve_doubt gen d s)) = calls s @ [segs]
        \<and> (\<forall>x \<in> set segs. \<not> prefix ''User Code:'' x))
 \<and> (\<exists>segs. calls (snd (edit_code_thinking gen q s)) = calls s @ [segs]
        \<and> (\<forall>x \<in> set segs. \<not> prefix ''User Code:'' x))
 \<and> (\<exists>segs. calls (snd (give_score gen g s)) = calls s @ [segs]
        \<and> (\<forall>x \<in> set segs. \<not> prefix ''User Code:'' x))"
  using no_code_snippet_no_label
  by (simp add: solve_doubt_calls edit_code_thinking_calls give_score_calls)

theorem no_user_code_segment_witness:
  "''Problem/Question: User Code: x = 1'' \<in> set [''Problem/Question: User Code: x = 1'', ''Prompt: '' @ prompt_edit]
   \<and> calls (snd (edit_code_thinking (answering_provider ''ok'')
         \<lparr>GeneralCodingQuestion.question = ''User Code: x = 1''\<rparr> fresh)) =
       [[''Problem/Question: User Code: x = 1'', ''Prompt: '' @ prompt_edit]]
   \<and> \<not> prefix ''User Code:'' ''Problem/Question: User Code: x = 1''"
  using no_user_code_segment [of "answering_provider ''ok''" _ fresh
      "\<lparr>GeneralCodingQuestion.question = ''User Code: x = 1''\<rparr>"]
  by (simp add: edit_code_thinking_calls input_data_cases fresh_def)

text \<open>
  C3. In \<open>solve_doubt\<close> the question handed to \<open>get_gemini_response\<close> is
  \<open>doubt_question\<close>, a line break and \<open>Context: \<close>, then \<open>problem_context\<close>; it is never empty,
  so it is always sent, as the first of two segments.
\<close>

theorem solve_doubt_combined_question:
  "snd (solve_doubt gen r s) =
     snd (get_gemini_response gen prompt_doubt None
            (Some (doubt_question r @ ''\<newline>Context: '' @ problem_context r)) s)
   \<and> calls (snd (solve_doubt gen r s)) =
     calls s @ [[''Problem/Question: '' @ doubt_question r @ ''\<newline>Context: '' @ problem_context r,
                 ''Prompt: '' @ prompt_doubt]]"
proof
  show "snd (solve_doubt gen r s) =
     snd (get_gemini_response gen prompt_doubt None
            (Some (doubt_question r @ ''\<newline>Context: '' @ problem_context r)) s)"
    by (rule solve_doubt_snd)
  show "calls (snd (solve_doubt gen r s)) =
     calls s @ [[''Problem/Question: '' @ doubt_question r @ ''\<newline>Context: '' @ problem_context r,
                 ''Prompt: '' @ prompt_doubt]]"
    by (simp add: solve_doubt_calls input_data_cases)
qed

subsection \<open>The score prompt\<close>

text \<open>
  C4. The segment sent by \<open>give_score\<close> contains the question and the answer of the request
  unchanged, one after the other in the lines \<open>Question: \<close> and \<open>Answer: \<close>, and ends with the
  instruction to respond only with the numeric score.
\<close>

theorem give_score_prompt_embeds:
  "calls (snd (give_score gen r s)) = calls s @ [[''Prompt: '' @ prompt_score r]]
   \<and> sublist (ScoreRequest.question r) (''Prompt: '' @ prompt_score r)
   \<and> sublist (answer r) (''Prompt: '' @ prompt_score r)
   \<and> sublist (''Question: '' @ ScoreRequest.question r @ ''\<newline>Answer: '' @ answer r @ ''\<newline>'')
        (''Prompt: '' @ prompt_score r)
   \<and> suffix ''Please respond only with the numeric score.'' (''Prompt: '' @ prompt_score r)"
proof (intro conjI)
  let ?head =
    "''Prompt: You are an expert evaluator. Evaluate the following answer to the given question on a scale of 0 to 10, ''
     @ ''where 0 means completely incorrect and 10 means completely correct.\<newline>\<newline>''"
  let ?q = "ScoreRequest.question r" and ?a = "answer r"
  let ?please = "''Please respond only with the numeric score.''"
  show "calls (snd (give_score gen r s)) = calls s @ [[''Prompt: '' @ prompt_score r]]"
    by (simp add: give_score_calls input_data_cases)
  show "sublist ?q (''Prompt: '' @ prompt_score r)"
    by (rule sublist_between [where ps = "?head @ ''Question: ''"
          and ss = "''\<newline>Answer: '' @ ?a @ ''\<newline>\<newline>'' @ ?please"])
       (simp add: prompt_score_def)
  show "sublist ?a (''Prompt: '' @ prompt_score r)"
    by (rule sublist_between [where ps = "?head @ ''Question: '' @ ?q @ ''\<newline>Answer: ''"
          and ss = "''\<newline>\<newline>'' @ ?please"])
       (simp add: prompt_score_def)
  show "sublist (''Question: '' @ ?q @ ''\<newline>Answer: '' @ ?a @ ''\<newline>'')
          (''Prompt: '' @ prompt_score r)"
    by (rule sublist_between [where ps = ?head and ss = "''\<newline>'' @ ?please"])
       (simp add: prompt_score_def)
  show "suffix ?please (''Prompt: '' @ prompt_score r)"
    by (rule suffixI [where zs = "?head @ ''Question: '' @ ?q @ ''\<newline>Answer: '' @ ?a
          @ ''\<newline>\<newline>''"])
       (simp add: prompt_score_def)
qed

text \<open>
  C10. \<open>give_score\<close> sends exactly one segment: the label \<open>Prompt: \<close>, the scoring
  instruction, the question and the answer of the request in the lines \<open>Question: \<close> and
  \<open>Answer: \<close>, and the closing instruction. It is not a \<open>Problem/Question:\<close> segment, although
  the request has a question.
\<close>

theorem give_score_single_segment:
  "calls (snd (give_score gen r s)) =
     calls s @
     [[''Prompt: You are an expert evaluator. Evaluate the following answer to the given question on a scale of 0 to 10, ''
       @ ''where 0 means completely incorrect and 10 means completely correct.\<newline>\<newline>''
       @ ''Question: '' @ ScoreRequest.question r @ ''\<newline>''
       @ ''Answer: '' @ answer r @ ''\<newline>\<newline>''
       @ ''Please respond only with the numeric score.'']]
   \<and> calls (snd (give_score gen r s)) = calls s @ [[''Prompt: '' @ prompt_score r]]
   \<and> length (last (calls (snd (give_score gen r s)))) = 1
   \<and> sublist (ScoreRequest.question r) (last (last (calls (snd (give_score gen r s)))))
   \<and> sublist (answer r) (last (last (calls (snd (give_score gen r s)))))
   \<and> \<not> prefix ''Problem/Question:'' (last (last (calls (snd (give_score gen r s)))))"
proof -
  let ?head =
    "''Prompt: You are an expert evaluator. Evaluate the following answer to the given question on a scale of 0 to 10, ''
     @ ''where 0 means completely incorrect and 10 means completely correct.\<newline>\<newline>''"
  let ?q = "ScoreRequest.question r" and ?a = "answer r"
  let ?please = "''Please respond only with the numeric score.''"
  have sent: "calls (snd (give_score gen r s)) = calls s @ [[''Prompt: '' @ prompt_score r]]"
    by (simp add: give_score_calls input_data_cases)
  then have the_seg:
    "last (last (calls (snd (give_score gen r s)))) = ''Prompt: '' @ prompt_score r"
    by simp
  show ?thesis
  proof (intro conjI)
    show "calls (snd (give_score gen r s)) =
      calls s @
      [[''Prompt: You are an expert evaluator. Evaluate the following answer to the given question on a scale of 0 to 10, ''
        @ ''where 0 means completely incorrect and 10 means completely correct.\<newline>\<newline>''
        @ ''Question: '' @ ScoreRequest.question r @ ''\<newline>''
        @ ''Answer: '' @ answer r @ ''\<newline>\<newline>''
        @ ''Please respond only with the numeric score.'']]"
      by (simp add: give_score_calls input_data_cases prompt_score_def)
    show "calls (snd (give_score gen r s)) = calls s @ [[''Prompt: '' @ prompt_score r]]"
      by (rule sent)
    show "length (last (calls (snd (give_score gen r s)))) = 1"
      by (simp add: sent)
    show "sublist ?q (last (last (calls (snd (give_score gen r s)))))"
      unfolding the_seg
      by (rule sublist_between [where ps = "?head @ ''Question: ''"
            and ss = "''\<newline>Answer: '' @ ?a @ ''\<newline>\<newline>'' @ ?please"])
         (simp add: prompt_score_def)
    show "sublist ?a (last (last (calls (snd (give_score gen r s)))))"
      unfolding the_seg
      by (rule sublist_between [where ps = "?head @ ''Question: '' @ ?q @ ''\<newline>Answer: ''"
            and ss = "''\<newline>\<newline>'' @ ?please"])
         (simp add: prompt_score_def)
    show "\<not> prefix ''Problem/Question:'' (last (last (calls (snd (give_score gen r s)))))"
      unfolding the_seg by simp
  qed
qed

subsection \<open>Prompt assembly\<close>

text \<open>
  C5, as amended. All four handlers assemble their segments through
  \<open>get_gemini_response\<close>. The list it sends starts with a \<open>Problem/Question: \<close> segment when a
  question string is given and is not empty, continues with a \<open>User Code: \<close> segment when a
  code snippet is given and is not empty, and always ends with the \<open>Prompt: \<close> segment of the
  instruction text. A string that is given but empty adds no segment.
\<close>

theorem prompt_assembly_uniform:
  "calls (snd (get_gemini_response gen prompt code_snippet user_question s)) =
     calls s @
     [(case user_question of
         None \<Rightarrow> [] | Some q \<Rightarrow> if q = [] then [] else [''Problem/Question: '' @ q])
      @ (case code_snippet of
         None \<Rightarrow> [] | Some c \<Rightarrow> if c = [] then [] else [''User Code: '' @ c])
      @ [''Prompt: '' @ prompt]]
   \<and> snd (analyze_code gen a s) =
       snd (get_gemini_response gen prompt_approach
              (Some (code_input a)) (Some (problem_statement a)) s)
   \<and> snd (solve_doubt gen d s) =
       snd (get_gemini_response gen prompt_doubt None
              (Some (doubt_question d @ ''\<newline>Context: '' @ problem_context d)) s)
   \<and> snd (edit_code_thinking gen q s) =
       snd (get_gemini_response gen prompt_edit None (Some (GeneralCodingQuestion.question q)) s)
   \<and> snd (give_score gen g s) =
       snd (get_gemini_response gen (prompt_score g) None None s)"
proof (intro conjI)
  show "calls (snd (get_gemini_response gen prompt code_snippet user_question s)) =
     calls s @
     [(case user_question of
         None \<Rightarrow> [] | Some q \<Rightarrow> if q = [] then [] else [''Problem/Question: '' @ q])
      @ (case code_snippet of
         None \<Rightarrow> [] | Some c \<Rightarrow> if c = [] then [] else [''User Code: '' @ c])
      @ [''Prompt: '' @ prompt]]"
    by (simp add: get_gemini_response_snd input_data_cases)
qed (rule analyze_code_snd solve_doubt_snd edit_code_thinking_snd give_score_snd)+

text \<open>
  C5 as stated says the labelled segments are there even when the supplied strings are empty.
  With both strings empty only the instruction segment is sent.
\<close>

theorem empty_strings_counterexample:
  "calls (snd (get_gemini_response (answering_provider ''ok'') ''Explain.'' (Some []) (Some []) fresh))
     = [[''Prompt: Explain.'']]"
  by (simp add: get_gemini_response_snd input_data_cases fresh_def)

text \<open>
  C9, as amended. A request with the empty string in a field is handled like any other. In
  \<open>analyze_code\<close> an empty \<open>code_input\<close> leaves out the \<open>User Code: \<close> segment and an empty
  \<open>problem_statement\<close> leaves out the \<open>Problem/Question: \<close> segment; in
  \<open>edit_code_thinking\<close> an empty \<open>question\<close> leaves only the instruction segment. In
  \<open>solve_doubt\<close> nothing is left out: the string that is tested is the combined question,
  which is never empty, so the \<open>Problem/Question: \<close> segment is sent for every request, also
  when \<open>doubt_question\<close> and \<open>problem_context\<close> are empty. On all three routes the reply is
  the outcome of the provider call on the list that was sent.
\<close>

theorem empty_field_segment_omitted:
  "(code_input a = [] \<longrightarrow>
      calls (snd (analyze_code gen a s)) =
        calls s @ [(if problem_statement a = [] then []
                    else [''Problem/Question: '' @ problem_statement a])
                   @ [''Prompt: '' @ prompt_approach]])
   \<and> (problem_statement a = [] \<longrightarrow>
      calls (snd (analyze_code gen a s)) =
        calls s @ [(if code_input a = [] then [] else [''User Code: '' @ code_input a])
                   @ [''Prompt: '' @ prompt_approach]])
   \<and> (GeneralCodingQuestion.question q = [] \<longrightarrow>
      calls (snd (edit_code_thinking gen q s)) = calls s @ [[''Prompt: '' @ prompt_edit]])
   \<and> calls (snd (solve_doubt gen d s)) =
        calls s @ [[''Problem/Question: '' @ doubt_question d @ ''\<newline>Context: '' @ problem_context d,
                    ''Prompt: '' @ prompt_doubt]]
   \<and> (doubt_question d = [] \<and> problem_context d = [] \<longrightarrow>
      calls (snd (solve_doubt gen d s)) =
        calls s @ [[''Problem/Question: \<newline>Context: '', ''Prompt: '' @ prompt_doubt]])
   \<and> fst (analyze_code gen a s) =
       (case fst (gen (provider_state s) (last (calls (snd (analyze_code gen a s))))) of
          Inl e \<Rightarrow> Inl e
        | Inr resp \<Rightarrow>
            (case response_text resp of
               Inl e \<Rightarrow> Inl e | Inr t \<Rightarrow> Inr [''response'' \<mapsto> t]))
   \<and> fst (edit_code_thinking gen q s) =
       (case fst (gen (provider_state s) (last (calls (snd (edit_code_thinking gen q s))))) of
          Inl e \<Rightarrow> Inl e
        | Inr resp \<Rightarrow>
            (case response_text resp of
               Inl e \<Rightarrow> Inl e | Inr t \<Rightarrow> Inr [''response'' \<mapsto> t]))
   \<and> fst (solve_doubt gen d s) =
       (case fst (gen (provider_state s) (last (calls (snd (solve_doubt gen d s))))) of
          Inl e \<Rightarrow> Inl e
        | Inr resp \<Rightarrow>
            (case response_text resp of
               Inl e \<Rightarrow> Inl e | Inr t \<Rightarrow> Inr [''response'' \<mapsto> t]))"
proof (intro conjI impI)
  assume "code_input a = []"
  then show "calls (snd (analyze_code gen a s)) =
        calls s @ [(if problem_statement a = [] then []
                    else [''Problem/Question: '' @ problem_statement a])
                   @ [''Prompt: '' @ prompt_approach]]"
    by (simp add: analyze_code_calls input_data_cases)
next
  assume "problem_statement a = []"
  then show "calls (snd (analyze_code gen a s)) =
        calls s @ [(if code_input a = [] then [] else [''User Code: '' @ code_input a])
                   @ [''Prompt: '' @ prompt_approach]]"
    by (simp add: analyze_code_calls input_data_cases)
next
  assume "GeneralCodingQuestion.question q = []"
  then show "calls (snd (edit_code_thinking gen q s)) = calls s @ [[''Prompt: '' @ prompt_edit]]"
    by (simp add: edit_code_thinking_calls input_data_cases)
next
  show "calls (snd (solve_doubt gen d s)) =
        calls s @ [[''Problem/Question: '' @ doubt_question d @ ''\<newline>Context: '' @ problem_context d,
                    ''Prompt: '' @ prompt_doubt]]"
    by (simp add: solve_doubt_calls input_data_cases)
next
  assume "doubt_question d = [] \<and> problem_context d = []"
  then show "calls (snd (solve_doubt gen d s)) =
        calls s @ [[''Problem/Question: \<newline>Context: '', ''Prompt: '' @ prompt_doubt]]"
    by (simp add: solve_doubt_calls input_data_cases)
next
  show "fst (analyze_code gen a s) =
       (case fst (gen (provider_state s) (last (calls (snd (analyze_code gen a s))))) of
          Inl e \<Rightarrow> Inl e
        | Inr resp \<Rightarrow>
            (case response_text resp of
               Inl e \<Rightarrow> Inl e | Inr t \<Rightarrow> Inr [''response'' \<mapsto> t]))"
    by (simp add: analyze_code_calls analyze_code_fst get_gemini_response_fst split: sum.splits)
next
  show "fst (edit_code_thinking gen q s) =
       (case fst (gen (provider_state s) (last (calls (snd (edit_code_thinking gen q s))))) of
          Inl e \<Rightarrow> Inl e
        | Inr resp \<Rightarrow>
            (case response_text resp of
               Inl e \<Rightarrow> Inl e | Inr t \<Rightarrow> Inr [''response'' \<mapsto> t]))"
    by (simp add: edit_code_thinking_calls edit_code_thinking_fst get_gemini_response_fst
          split: sum.splits)
next
  show "fst (solve_doubt gen d s) =
       (case fst (gen (provider_state s) (last (calls (snd (solve_doubt gen d s))))) of
          Inl e \<Rightarrow> Inl e
        | Inr resp \<Rightarrow>
            (case response_text resp of
               Inl e \<Rightarrow> Inl e | Inr t \<Rightarrow> Inr [''response'' \<mapsto> t]))"
    by (simp add: solve_doubt_calls solve_doubt_fst get_gemini_response_fst split: sum.splits)
qed

theorem empty_field_segment_omitted_witness:
  "code_input \<lparr>problem_statement = ''Sort a list'', code_input = []\<rparr> = []
   \<and> calls (snd (analyze_code (answering_provider ''ok'')
        \<lparr>problem_statement = ''Sort a list'', code_input = []\<rparr> fresh))
      = [[''Problem/Question: Sort a list'', ''Prompt: '' @ prompt_approach]]
   \<and> problem_statement \<lparr>problem_statement = [], code_input = ''xs.sort()''\<rparr> = []
   \<and> calls (snd (analyze_code (answering_provider ''ok'')
        \<lparr>problem_statement = [], code_input = ''xs.sort()''\<rparr> fresh))
      = [[''User Code: xs.sort()'', ''Prompt: '' @ prompt_approach]]
   \<and> GeneralCodingQuestion.question \<lparr>GeneralCodingQuestion.question = []\<rparr> = []
   \<and> calls (snd (edit_code_thinking (answering_provider ''ok'')
        \<lparr>GeneralCodingQuestion.question = []\<rparr> fresh))
      = [[''Prompt: '' @ prompt_edit]]
   \<and> doubt_question \<lparr>doubt_question = [], problem_context = []\<rparr> = []
   \<and> problem_context \<lparr>doubt_question = [], problem_context = []\<rparr> = []
   \<and> calls (snd (solve_doubt (answering_provider ''ok'')
        \<lparr>doubt_question = [], problem_context = []\<rparr> fresh))
      = [[''Problem/Question: \<newline>Context: '', ''Prompt: '' @ prompt_doubt]]
   \<and> fst (analyze_code (answering_provider ''ok'')
        \<lparr>problem_statement = ''Sort a list'', code_input = []\<rparr> fresh)
      = Inr [''response'' \<mapsto> ''ok'']"
  using empty_field_segment_omitted [where a = "\<lparr>problem_statement = ''Sort a list'', code_input = []\<rparr>"
      and gen = "answering_provider ''ok''" and s = fresh
      and q = "\<lparr>GeneralCodingQuestion.question = []\<rparr>"
      and d = "\<lparr>doubt_question = [], problem_context = []\<rparr>"]
    empty_field_segment_omitted [where a = "\<lparr>problem_statement = [], code_input = ''xs.sort()''\<rparr>"
      and gen = "answering_provider ''ok''" and s = fresh
      and q = "\<lparr>GeneralCodingQuestion.question = []\<rparr>"
      and d = "\<lparr>doubt_question = [], problem_context = []\<rparr>"]
  by (simp add: fresh_def answering_provider_def)

text \<open>
  C9 as stated covers every request and every context field. On \<open>/solve_doubt\<close> a request
  with an empty \<open>problem_context\<close>, or with both fields empty, still has its
  \<open>Problem/Question: \<close> segment sent.
\<close>

theorem solve_doubt_empty_context_counterexample:
  "calls (snd (solve_doubt (answering_provider ''ok'')
        \<lparr>doubt_question = ''What is a heap?'', problem_context = []\<rparr> fresh))
     = [[''Problem/Question: What is a heap?\<newline>Context: '', ''Prompt: '' @ prompt_doubt]]
   \<and> calls (snd (solve_doubt (answering_provider ''ok'')
        \<lparr>doubt_question = [], problem_context = []\<rparr> fresh))
     = [[''Problem/Question: \<newline>Context: '', ''Prompt: '' @ prompt_doubt]]"
  by (simp add: solve_doubt_calls input_data_cases fresh_def)

subsection \<open>One call, one reply\<close>

text \<open>
  C6. Every request on every route sends exactly one segment list to the provider, whatever
  was sent before; the provider is stepped once, and the reply of the handler is a function
  of the outcome of that one call: its error, or its text under the key of the route.
\<close>

theorem one_provider_call_per_request:
  "\<exists>segs. snd (app gen req s) =
      s\<lparr>calls := calls s @ [segs], provider_state := snd (gen (provider_state s) segs)\<rparr>
    \<and> length (calls (snd (app gen req s))) = Suc (length (calls s))
    \<and> fst (app gen req s) =
      (case fst (gen (provider_state s) segs) of
         Inl e \<Rightarrow> Inl e
       | Inr resp \<Rightarrow>
           (case response_text resp of
              Inl e \<Rightarrow> Inl e
            | Inr t \<Rightarrow> Inr [(case req of POST_givescore _ \<Rightarrow> ''score'' | _ \<Rightarrow> ''response'') \<mapsto> t]))"
proof -
  from app_sent [of gen req s] obtain segs where
    st: "snd (app gen req s) =
      s\<lparr>calls := calls s @ [segs], provider_state := snd (gen (provider_state s) segs)\<rparr>"
    and res: "fst (app gen req s) =
      (case fst (gen (provider_state s) segs) of
         Inl e \<Rightarrow> Inl e
       | Inr resp \<Rightarrow>
           (case response_text resp of
              Inl e \<Rightarrow> Inl e
            | Inr t \<Rightarrow> Inr [(case req of POST_givescore _ \<Rightarrow> ''score'' | _ \<Rightarrow> ''response'') \<mapsto> t]))"
    by blast
  from st have "length (calls (snd (app gen req s))) = Suc (length (calls s))"
    by simp
  with st res show ?thesis by blast
qed

text \<open>
  C7. Whatever the route, an exception raised by the provider call, or raised on reading the
  text of its response, is the result of the handler, after the single call; the handler
  returns a reply exactly when the call returned a response whose text could be read.
\<close>

theorem provider_failure_propagates:
  "\<exists>segs. calls (snd (app gen req s)) = calls s @ [segs]
    \<and> (\<forall>e. fst (gen (provider_state s) segs) = Inl e \<longrightarrow> fst (app gen req s) = Inl e)
    \<and> (\<forall>resp e. fst (gen (provider_state s) segs) = Inr resp \<and> response_text resp = Inl e
          \<longrightarrow> fst (app gen req s) = Inl e)
    \<and> ((\<exists>body. fst (app gen req s) = Inr body)
          \<longleftrightarrow> (\<exists>resp t. fst (gen (provider_state s) segs) = Inr resp \<and> response_text resp = Inr t))"
proof -
  from app_sent [of gen req s] obtain segs where
    st: "snd (app gen req s) =
      s\<lparr>calls := calls s @ [segs], provider_state := snd (gen (provider_state s) segs)\<rparr>"
    and res: "fst (app gen req s) =
      (case fst (gen (provider_state s) segs) of
         Inl e \<Rightarrow> Inl e
       | Inr resp \<Rightarrow>
           (case response_text resp of
              Inl e \<Rightarrow> Inl e
            | Inr t \<Rightarrow> Inr [(case req of POST_givescore _ \<Rightarrow> ''score'' | _ \<Rightarrow> ''response'') \<mapsto> t]))"
    by blast
  from st have sent: "calls (snd (app gen req s)) = calls s @ [segs]"
    by simp
  have raised: "\<forall>e. fst (gen (provider_state s) segs) = Inl e \<longrightarrow> fst (app gen req s) = Inl e"
    by (simp add: res)
  have unreadable: "\<forall>resp e. fst (gen (provider_state s) segs) = Inr resp \<and> response_text resp = Inl e
          \<longrightarrow> fst (app gen req s) = Inl e"
    by (simp add: res)
  have ok: "(\<exists>body. fst (app gen req s) = Inr body)
          \<longleftrightarrow> (\<exists>resp t. fst (gen (provider_state s) segs) = Inr resp \<and> response_text resp = Inr t)"
    unfolding res by (auto split: sum.splits)
  from sent raised unreadable ok show ?thesis by blast
qed

theorem provider_failure_propagates_witness:
  "fst (app (raising_provider (Exception ''quota exceeded''))
          (POST_givescore \<lparr>question = ''2+2=?'', answer = ''4''\<rparr>) fresh)
     = Inl (Exception ''quota exceeded'')
   \<and> fst (app (unreadable_provider (Exception ''no valid part''))
          (POST_analyze \<lparr>problem_statement = ''Reverse a linked list'', code_input = ''def rev(h): pass''\<rparr>) fresh)
     = Inl (Exception ''no valid part'')"
  using provider_failure_propagates [of "raising_provider (Exception ''quota exceeded'')"
      "POST_givescore \<lparr>question = ''2+2=?'', answer = ''4''\<rparr>" fresh]
    provider_failure_propagates [of "unreadable_provider (Exception ''no valid part'')"
      "POST_analyze \<lparr>problem_statement = ''Reverse a linked list'', code_input = ''def rev(h): pass''\<rparr>" fresh]
  by (auto simp: raising_provider_def unreadable_provider_def)

text \<open>
  C8. When the provider call succeeds with text \<open>t\<close>, the reply is the dictionary with the
  one key \<open>score\<close> on the route \<open>/givescore\<close> and \<open>response\<close> on the other three, bound to
  \<open>t\<close> itself.
\<close>

theorem response_text_passed_through:
  "\<exists>segs. calls (snd (app gen req s)) = calls s @ [segs]
    \<and> (\<forall>resp t. fst (gen (provider_state s) segs) = Inr resp \<and> response_text resp = Inr t
          \<longrightarrow> fst (app gen req s) =
               Inr [(case req of POST_givescore _ \<Rightarrow> ''score'' | _ \<Rightarrow> ''response'') \<mapsto> t])"
proof -
  from app_sent [of gen req s] obtain segs where
    st: "snd (app gen req s) =
      s\<lparr>calls := calls s @ [segs], provider_state := snd (gen (provider_state s) segs)\<rparr>"
    and res: "fst (app gen req s) =
      (case fst (gen (provider_state s) segs) of
         Inl e \<Rightarrow> Inl e
       | Inr resp \<Rightarrow>
           (case response_text resp of
              Inl e \<Rightarrow> Inl e
            | Inr t \<Rightarrow> Inr [(case req of POST_givescore _ \<Rightarrow> ''score'' | _ \<Rightarrow> ''response'') \<mapsto> t]))"
    by blast
  from st have sent: "calls (snd (app gen req s)) = calls s @ [segs]"
    by simp
  have "\<forall>resp t. fst (gen (provider_state s) segs) = Inr resp \<and> response_text resp = Inr t
          \<longrightarrow> fst (app gen req s) =
               Inr [(case req of POST_givescore _ \<Rightarrow> ''score'' | _ \<Rightarrow> ''response'') \<mapsto> t]"
    by (simp add: res)
  with sent show ?thesis by blast
qed

theorem response_text_passed_through_witness:
  "fst (app (answering_provider ''7'') (POST_givescore \<lparr>question = ''2+2=?'', answer = ''4''\<rparr>) fresh)
     = Inr [''score'' \<mapsto> ''7'']
   \<and> fst (app (answering_provider ''Use two pointers.'')
          (POST_edit \<lparr>GeneralCodingQuestion.question = ''How do I reverse a list?''\<rparr>) fresh)
     = Inr [''response'' \<mapsto> ''Use two pointers.'']"
  using response_text_passed_through [of "answering_provider ''7''"
      "POST_givescore \<lparr>question = ''2+2=?'', answer = ''4''\<rparr>" fresh]
    response_text_passed_through [of "answering_provider ''Use two pointers.''"
      "POST_edit \<lparr>GeneralCodingQuestion.question = ''How do I reverse a list?''\<rparr>" fresh]
  by (auto simp: answering_provider_def)

end
